theory Spec2Isabelle
  imports Complex_Main
begin

section \<open>JavaScript values\<close>

text \<open>
  The gateway (\<^verbatim>\<open>node-mcp-server/src/server.ts\<close>) handles request bodies and vendor
  responses that TypeScript types as \<^verbatim>\<open>any\<close>: parsed JSON, plus \<^verbatim>\<open>undefined\<close> for a
  property that is not there. An object is an association list from property names to
  values, read with \<open>map_of\<close>; a JSON number is a rational (the code only ever asks
  whether a number is zero).
\<close>

datatype jsval =
    JUndef
  | JNull
  | JBool bool
  | JNum rat
  | JStr string
  | JArr "jsval list"
  | JObj "(string \<times> jsval) list"

text \<open>The exceptions that can travel through \<^verbatim>\<open>callAI\<close>: the error \<^verbatim>\<open>axios.post\<close>
  rejects with (carrying \<^verbatim>\<open>err.response.data\<close> when a response arrived), the
  \<^verbatim>\<open>TypeError\<close> of a property read on \<^verbatim>\<open>null\<close> or \<^verbatim>\<open>undefined\<close>, and
  \<^verbatim>\<open>new Error('Unsupported provider')\<close>. Loading the server can end in the
  \<^verbatim>\<open>RangeError\<close> that \<^verbatim>\<open>app.listen\<close> throws for a port it does not accept.\<close>

datatype error =
    AxiosError "jsval option"
  | TypeError
  | UnsupportedProvider
  | RangeError

definition nullish :: "jsval \<Rightarrow> bool" where
  "nullish v = (v = JUndef \<or> v = JNull)"

text \<open>Truthiness, as tested by \<^verbatim>\<open>x ? a : b\<close> and \<^verbatim>\<open>x || y\<close>.\<close>

fun truthy :: "jsval \<Rightarrow> bool" where
  "truthy JUndef = False"
| "truthy JNull = False"
| "truthy (JBool b) = b"
| "truthy (JNum r) = (r \<noteq> 0)"
| "truthy (JStr s) = (s \<noteq> [])"
| "truthy (JArr xs) = True"
| "truthy (JObj kvs) = True"

text \<open>
  \<open>own_prop k v\<close> is \<^verbatim>\<open>v[k]\<close> for a \<open>v\<close> that is neither \<^verbatim>\<open>null\<close> nor \<^verbatim>\<open>undefined\<close>,
  for the property names the gateway reads (\<^verbatim>\<open>text\<close>, \<^verbatim>\<open>provider\<close>, \<^verbatim>\<open>proposal\<close>,
  \<^verbatim>\<open>choices\<close>, \<^verbatim>\<open>message\<close>, \<^verbatim>\<open>content\<close>, \<^verbatim>\<open>candidates\<close>, \<^verbatim>\<open>parts\<close>): none of them is
  inherited from a prototype, so only an object's own properties can answer.
  \<open>index0 v\<close> is \<^verbatim>\<open>v[0]\<close>: the first element of an array, the first character of a
  string, the property \<^verbatim>\<open>"0"\<close> of an object.
\<close>

fun own_prop :: "string \<Rightarrow> jsval \<Rightarrow> jsval" where
  "own_prop k (JObj kvs) = (case map_of kvs k of Some v \<Rightarrow> v | None \<Rightarrow> JUndef)"
| "own_prop k v = JUndef"

fun index0 :: "jsval \<Rightarrow> jsval" where
  "index0 (JArr xs) = (case xs of [] \<Rightarrow> JUndef | x # _ \<Rightarrow> x)"
| "index0 (JStr s) = (case s of [] \<Rightarrow> JUndef | c # _ \<Rightarrow> JStr [c])"
| "index0 (JObj kvs) = (case map_of kvs ''0'' of Some v \<Rightarrow> v | None \<Rightarrow> JUndef)"
| "index0 v = JUndef"

text \<open>\<^verbatim>\<open>v.k\<close> throws on \<^verbatim>\<open>null\<close> and \<^verbatim>\<open>undefined\<close>; \<^verbatim>\<open>v?.k\<close> and \<^verbatim>\<open>v?.[0]\<close> give
  \<^verbatim>\<open>undefined\<close> there.\<close>

definition get_prop :: "string \<Rightarrow> jsval \<Rightarrow> error + jsval" where
  "get_prop k v = (if nullish v then Inl TypeError else Inr (own_prop k v))"

definition opt_prop :: "string \<Rightarrow> jsval \<Rightarrow> jsval" where
  "opt_prop k v = (if nullish v then JUndef else own_prop k v)"

definition opt_index0 :: "jsval \<Rightarrow> jsval" where
  "opt_index0 v = (if nullish v then JUndef else index0 v)"

text \<open>\<^verbatim>\<open>a || b\<close>.\<close>

definition js_or :: "jsval \<Rightarrow> jsval \<Rightarrow> jsval" where
  "js_or a b = (if truthy a then a else b)"

text \<open>String conversion inside a template literal, \<^verbatim>\<open>`${v}`\<close>. The printing of a
  number is a parameter; an array prints its elements joined by commas, with
  \<^verbatim>\<open>null\<close> and \<^verbatim>\<open>undefined\<close> elements printed as nothing.\<close>

fun join_comma :: "string list \<Rightarrow> string" where
  "join_comma [] = []"
| "join_comma [s] = s"
| "join_comma (s # t # ss) = s @ '','' @ join_comma (t # ss)"

fun to_string :: "(rat \<Rightarrow> string) \<Rightarrow> jsval \<Rightarrow> string" where
  "to_string ns JUndef = ''undefined''"
| "to_string ns JNull = ''null''"
| "to_string ns (JBool b) = (if b then ''true'' else ''false'')"
| "to_string ns (JNum r) = ns r"
| "to_string ns (JStr s) = s"
| "to_string ns (JArr xs) =
     join_comma (map (\<lambda>x. if x = JUndef \<or> x = JNull then [] else to_string ns x) xs)"
| "to_string ns (JObj kvs) = ''[object Object]''"

text \<open>
  That conversion throws a \<^verbatim>\<open>TypeError\<close> for an object with a property
  \<^verbatim>\<open>toString\<close> of its own: a parsed JSON value is never callable, and the inherited
  \<^verbatim>\<open>valueOf\<close> does not give a primitive. An array converts its elements, so it throws
  when one of them does. \<open>printable v\<close> says that \<^verbatim>\<open>`${v}`\<close> does not throw; \<open>to_string\<close>
  is only used on such values.
\<close>

fun printable :: "jsval \<Rightarrow> bool" where
  "printable (JObj kvs) = (map_of kvs ''toString'' = None)"
| "printable (JArr xs) = list_all printable xs"
| "printable v = True"

section \<open>The outside world of the gateway\<close>

text \<open>
  A request handed to \<^verbatim>\<open>axios.post(url, data, {headers})\<close>, and what comes back: no
  response at all (a transport failure), or a status code with the parsed body
  (\<^verbatim>\<open>res.data\<close>; a body that is not JSON arrives as a string).
\<close>

record request =
  url :: string
  data :: jsval
  headers :: "(string \<times> string) list"

datatype outcome =
    NoResponse
  | Response nat jsval

text \<open>
  Everything \<^verbatim>\<open>server.ts\<close> reads from outside itself: the vendor behind
  \<^verbatim>\<open>axios.post\<close>, the environment \<^verbatim>\<open>process.env\<close>, two library printers
  (\<^verbatim>\<open>Number.prototype.toString\<close> and \<^verbatim>\<open>`${JSON.stringify(v)}`\<close>), and what
  \<^verbatim>\<open>app.listen(port)\<close> makes of the port it is given: \<open>None\<close> when the server listens,
  the exception thrown otherwise (a port such as \<^verbatim>\<open>99999\<close> is refused).
\<close>

record world =
  post :: "request \<Rightarrow> outcome"
  env :: "string \<Rightarrow> string option"
  numstr :: "rat \<Rightarrow> string"
  stringify :: "jsval \<Rightarrow> string"
  listen :: "jsval \<Rightarrow> error option"

text \<open>\<^verbatim>\<open>`${process.env.K}`\<close>: an unset variable prints as \<^verbatim>\<open>undefined\<close>.\<close>

definition env_str :: "world \<Rightarrow> string \<Rightarrow> string" where
  "env_str w k = (case env w k of None \<Rightarrow> ''undefined'' | Some v \<Rightarrow> v)"

text \<open>\<^verbatim>\<open>await axios.post(...)\<close> with axios's default \<^verbatim>\<open>validateStatus\<close>: it resolves with
  the response for a status in 200..299 and rejects otherwise.\<close>

definition axios_post :: "world \<Rightarrow> request \<Rightarrow> error + jsval" where
  "axios_post w r =
     (case post w r of
        NoResponse \<Rightarrow> Inl (AxiosError None)
      | Response st d \<Rightarrow>
          if 200 \<le> st \<and> st < 300 then Inr d else Inl (AxiosError (Some d)))"

section \<open>callAI\<close>

text \<open>The message list of the three chat-completion branches:
  \<^verbatim>\<open>[...(systemPrompt ? [{role: 'system', content: systemPrompt}] : []),
    {role: 'user', content: userPrompt}]\<close>.\<close>

definition chat_messages :: "string \<Rightarrow> jsval \<Rightarrow> jsval list" where
  "chat_messages systemPrompt userPrompt =
     (if systemPrompt \<noteq> []
      then [JObj [(''role'', JStr ''system''), (''content'', JStr systemPrompt)]]
      else [])
     @ [JObj [(''role'', JStr ''user''), (''content'', userPrompt)]]"

definition chat_request :: "world \<Rightarrow> string \<Rightarrow> string \<Rightarrow> string \<Rightarrow> string \<Rightarrow> jsval \<Rightarrow> request" where
  "chat_request w endpoint model key systemPrompt userPrompt =
     \<lparr> url = endpoint,
       data = JObj [(''model'', JStr model),
                    (''messages'', JArr (chat_messages systemPrompt userPrompt)),
                    (''temperature'', JNum (7 / 10))],
       headers = [(''Authorization'', ''Bearer '' @ env_str w key),
                  (''Content-Type'', ''application/json'')] \<rparr>"

text \<open>\<^verbatim>\<open>res.data.choices?.[0]?.message?.content\<close>: the first read is not optional.\<close>

definition chat_extract :: "jsval \<Rightarrow> error + jsval" where
  "chat_extract d =
     (case get_prop ''choices'' d of
        Inl e \<Rightarrow> Inl e
      | Inr c \<Rightarrow> Inr (opt_prop ''content'' (opt_prop ''message'' (opt_index0 c))))"

text \<open>One chat-completion branch. The source writes it three times, differing in the
  endpoint, the model and the name of the credential. Its \<^verbatim>\<open>catch\<close> logs the error and
  throws it again, so an error leaves the branch as it arose. The second component
  lists the requests handed to \<^verbatim>\<open>axios.post\<close>.\<close>

definition chat_call ::
  "world \<Rightarrow> string \<Rightarrow> string \<Rightarrow> string \<Rightarrow> string \<Rightarrow> jsval \<Rightarrow> (error + jsval) \<times> request list" where
  "chat_call w endpoint model key systemPrompt userPrompt =
     (let r = chat_request w endpoint model key systemPrompt userPrompt in
      (case axios_post w r of
         Inl err \<Rightarrow> Inl err
       | Inr d \<Rightarrow> chat_extract d,
       [r]))"

definition newline2 :: string where
  "newline2 = [CHR 0x0A, CHR 0x0A]"

definition fullPrompt :: "world \<Rightarrow> string \<Rightarrow> jsval \<Rightarrow> jsval" where
  "fullPrompt w systemPrompt userPrompt =
     (if systemPrompt \<noteq> []
      then JStr (systemPrompt @ newline2 @ to_string (numstr w) userPrompt)
      else userPrompt)"

definition gemini_request :: "world \<Rightarrow> string \<Rightarrow> jsval \<Rightarrow> request" where
  "gemini_request w systemPrompt userPrompt =
     \<lparr> url = ''https://generativelanguage.googleapis.com/v1beta/models/gemini-pro:generateContent?key=''
             @ env_str w ''GEMINI_API_KEY'',
       data = JObj [(''contents'',
                JArr [JObj [(''parts'',
                  JArr [JObj [(''text'', fullPrompt w systemPrompt userPrompt)]])]])],
       headers = [(''Content-Type'', ''application/json'')] \<rparr>"

text \<open>\<^verbatim>\<open>res.data.candidates?.[0]?.content?.parts?.[0]?.text || ''\<close>.\<close>

definition gemini_extract :: "jsval \<Rightarrow> error + jsval" where
  "gemini_extract d =
     (case get_prop ''candidates'' d of
        Inl e \<Rightarrow> Inl e
      | Inr c \<Rightarrow>
          Inr (js_or
            (opt_prop ''text'' (opt_index0 (opt_prop ''parts''
               (opt_prop ''content'' (opt_index0 c)))))
            (JStr [])))"

definition gemini_call :: "world \<Rightarrow> string \<Rightarrow> jsval \<Rightarrow> (error + jsval) \<times> request list" where
  "gemini_call w systemPrompt userPrompt =
     (let r = gemini_request w systemPrompt userPrompt in
      (case axios_post w r of
         Inl err \<Rightarrow> Inl err
       | Inr d \<Rightarrow> gemini_extract d,
       [r]))"

text \<open>
  \<^verbatim>\<open>callAI(provider, systemPrompt, userPrompt)\<close>. Its callers pass a string for
  \<^verbatim>\<open>systemPrompt\<close> and whatever the request body holds for the other two. The function
  starts by logging \<^verbatim>\<open>`[callAI] provider: ${provider}`\<close> and the two prompts the same
  way, outside any \<^verbatim>\<open>try\<close>: a value that cannot be converted to a string ends the call
  there with a \<^verbatim>\<open>TypeError\<close>. The other log lines pass their values as separate
  arguments to \<^verbatim>\<open>console.log\<close> and \<^verbatim>\<open>console.error\<close>, which cannot throw, and are left
  out.
\<close>

definition callAI :: "world \<Rightarrow> jsval \<Rightarrow> string \<Rightarrow> jsval \<Rightarrow> (error + jsval) \<times> request list" where
  "callAI w provider systemPrompt userPrompt =
     (if \<not> printable provider \<or> \<not> printable userPrompt then (Inl TypeError, [])
      else if provider = JStr ''groq'' then
        chat_call w ''https://api.groq.com/openai/v1/chat/completions''
          ''meta-llama/llama-4-scout-17b-16e-instruct'' ''GROQ_API_KEY'' systemPrompt userPrompt
      else if provider = JStr ''openai'' then
        chat_call w ''https://api.openai.com/v1/chat/completions''
          ''gpt-4'' ''CHATGPT_API_KEY'' systemPrompt userPrompt
      else if provider = JStr ''deepseek'' then
        chat_call w ''https://api.deepseek.com/v1/chat/completions''
          ''deepseek-chat'' ''DEEPSEEK_API_KEY'' systemPrompt userPrompt
      else if provider = JStr ''gemini'' then
        gemini_call w systemPrompt userPrompt
      else (Inl UnsupportedProvider, []))"

section \<open>Startup and the two request handlers\<close>

text \<open>
  The statements \<^verbatim>\<open>server.ts\<close> runs when it is loaded:
  \<^verbatim>\<open>const PORT = process.env.PORT || 3001\<close> and
  \<^verbatim>\<open>const defaultProvider = process.env.AI_PROVIDER || 'groq'\<close>, then the routes are
  registered and \<^verbatim>\<open>app.listen(PORT)\<close> is called. No statement among them reads a
  credential (\<^verbatim>\<open>GROQ_API_KEY\<close>, \<^verbatim>\<open>CHATGPT_API_KEY\<close>, \<^verbatim>\<open>DEEPSEEK_API_KEY\<close>,
  \<^verbatim>\<open>GEMINI_API_KEY\<close>); the only one that can throw is the call of \<^verbatim>\<open>app.listen\<close>.
\<close>

record server =
  PORT :: jsval
  defaultProvider :: string

definition env_PORT :: "world \<Rightarrow> jsval" where
  "env_PORT w =
     (case env w ''PORT'' of
        None \<Rightarrow> JNum 3001
      | Some p \<Rightarrow> if p \<noteq> [] then JStr p else JNum 3001)"

definition env_defaultProvider :: "world \<Rightarrow> string" where
  "env_defaultProvider w =
     (case env w ''AI_PROVIDER'' of
        None \<Rightarrow> ''groq''
      | Some p \<Rightarrow> if p \<noteq> [] then p else ''groq'')"

definition startup :: "world \<Rightarrow> error + server" where
  "startup w =
     (case listen w (env_PORT w) of
        Some err \<Rightarrow> Inl err
      | None \<Rightarrow> Inr \<lparr> PORT = env_PORT w, defaultProvider = env_defaultProvider w \<rparr>)"

text \<open>
  \<^verbatim>\<open>res.json(v)\<close> sends \<^verbatim>\<open>JSON.stringify(v)\<close>; \<open>wire v\<close> is what the receiver parses
  back: a property whose value is \<^verbatim>\<open>undefined\<close> is left out, an \<^verbatim>\<open>undefined\<close> array
  element becomes \<^verbatim>\<open>null\<close>.
\<close>

fun wire :: "jsval \<Rightarrow> jsval" where
  "wire (JArr xs) = JArr (map (\<lambda>x. if x = JUndef then JNull else wire x) xs)"
| "wire (JObj kvs) = JObj (map (\<lambda>(k, v). (k, wire v)) (filter (\<lambda>(k, v). v \<noteq> JUndef) kvs))"
| "wire v = v"

text \<open>
  What a handler does with a request: it replies with a status code and a JSON body, or
  an exception leaves it (thrown outside its \<^verbatim>\<open>try\<close>, by destructuring a
  \<^verbatim>\<open>req.body\<close> that is \<^verbatim>\<open>undefined\<close> or \<^verbatim>\<open>null\<close>).
\<close>

datatype reply =
    Reply nat jsval
  | Escaped error

text \<open>\<^verbatim>\<open>const { ..., provider = defaultProvider } = req.body\<close>: the default stands in
  only for \<^verbatim>\<open>undefined\<close>.\<close>

definition provider_of :: "server \<Rightarrow> jsval \<Rightarrow> jsval" where
  "provider_of srv body =
     (let p = own_prop ''provider'' body
      in if p = JUndef then JStr (defaultProvider srv) else p)"

definition enhance_systemPrompt :: string where
  "enhance_systemPrompt =
     ''Enhance this business proposal text to be more professional and compelling. Keep the original meaning but improve clarity and impact.''"

definition text_enhancement :: "world \<Rightarrow> server \<Rightarrow> jsval \<Rightarrow> reply \<times> request list" where
  "text_enhancement w srv body =
     (if nullish body then (Escaped TypeError, [])
      else
        let text = own_prop ''text'' body;
            provider = provider_of srv body;
            (r, calls) = callAI w provider enhance_systemPrompt text
        in (case r of
              Inr result \<Rightarrow>
                Reply 200 (wire (JObj [(''success'', JBool True), (''enhancedText'', result)]))
            | Inl err \<Rightarrow>
                Reply 500 (wire (JObj [(''success'', JBool False),
                                       (''error'', JStr ''Failed to enhance text'')])),
            calls))"

definition html_systemPrompt :: "world \<Rightarrow> jsval \<Rightarrow> string" where
  "html_systemPrompt w proposal =
     ''Generate a professional HTML template for a business proposal. Use this JSON data: ''
       @ stringify w proposal"

definition generate_html :: "world \<Rightarrow> server \<Rightarrow> jsval \<Rightarrow> reply \<times> request list" where
  "generate_html w srv body =
     (if nullish body then (Escaped TypeError, [])
      else
        let proposal = own_prop ''proposal'' body;
            provider = provider_of srv body;
            (r, calls) = callAI w provider (html_systemPrompt w proposal) (JStr [])
        in (case r of
              Inr result \<Rightarrow>
                Reply 200 (wire (JObj [(''success'', JBool True), (''html'', result)]))
            | Inl err \<Rightarrow>
                Reply 500 (wire (JObj [(''success'', JBool False),
                                       (''error'', JStr ''Failed to generate HTML'')])),
            calls))"

section \<open>The caller's client\<close>

text \<open>
  \<^verbatim>\<open>laravel-api-mcp-client/app/Services/McpClient.php\<close>. \<^verbatim>\<open>Http::post\<close> returns a
  response whatever its status code, and raises a \<^verbatim>\<open>ConnectionException\<close> when no
  response arrives. The body of a response is kept as \<^verbatim>\<open>json_decode\<close> reads it:
  \<open>None\<close> when it is not JSON.
\<close>

datatype php_error =
    ConnectionException
  | PhpTypeError

record php_request =
  target :: string
  payload :: jsval

datatype http_result =
    ConnectionFailed
  | HttpResponse nat "jsval option"

record laravel =
  http_post :: "php_request \<Rightarrow> http_result"
  strval :: "rat \<Rightarrow> string"

text \<open>The two properties of the class are \<^verbatim>\<open>$mcpServerUrl\<close> and \<^verbatim>\<open>$defaultProvider\<close>;
  the second is named \<open>clientDefaultProvider\<close> here, apart from the gateway's
  \<open>defaultProvider\<close>.\<close>

record McpClient =
  mcpServerUrl :: string
  clientDefaultProvider :: string

text \<open>\<^verbatim>\<open>$response->json($key)\<close>: the value under the key when the decoded body is an
  array that has it, \<^verbatim>\<open>null\<close> otherwise.\<close>

definition response_json :: "jsval option \<Rightarrow> string \<Rightarrow> jsval" where
  "response_json body key =
     (case body of
        Some (JObj kvs) \<Rightarrow> (case map_of kvs key of Some v \<Rightarrow> v | None \<Rightarrow> JNull)
      | _ \<Rightarrow> JNull)"

text \<open>Returning a value from a method declared \<^verbatim>\<open>: string\<close> (the file does not
  declare strict types): a string is returned as it is, a number or a boolean is
  converted, an array is a \<^verbatim>\<open>TypeError\<close>.\<close>

fun return_string :: "laravel \<Rightarrow> jsval \<Rightarrow> php_error + string" where
  "return_string L (JStr s) = Inr s"
| "return_string L (JNum r) = Inr (strval L r)"
| "return_string L (JBool b) = Inr (if b then ''1'' else [])"
| "return_string L v = Inl PhpTypeError"

text \<open>\<^verbatim>\<open>$v ?? $default\<close>.\<close>

definition null_coalesce :: "jsval \<Rightarrow> jsval \<Rightarrow> jsval" where
  "null_coalesce v d = (if nullish v then d else v)"

definition provider_or_default :: "McpClient \<Rightarrow> string option \<Rightarrow> string" where
  "provider_or_default c provider =
     (case provider of None \<Rightarrow> clientDefaultProvider c | Some p \<Rightarrow> p)"

definition enhance_request :: "McpClient \<Rightarrow> string \<Rightarrow> string option \<Rightarrow> php_request" where
  "enhance_request c text provider =
     \<lparr> target = mcpServerUrl c @ ''/mcp/text-enhancement'',
       payload = JObj [(''text'', JStr text),
                       (''provider'', JStr (provider_or_default c provider))] \<rparr>"

definition enhanceText ::
  "laravel \<Rightarrow> McpClient \<Rightarrow> string \<Rightarrow> string option \<Rightarrow> php_error + string" where
  "enhanceText L c text provider =
     (case http_post L (enhance_request c text provider) of
        ConnectionFailed \<Rightarrow> Inl ConnectionException
      | HttpResponse st body \<Rightarrow>
          return_string L (null_coalesce (response_json body ''enhancedText'') (JStr text)))"

definition html_request :: "McpClient \<Rightarrow> jsval \<Rightarrow> string option \<Rightarrow> php_request" where
  "html_request c proposalData provider =
     \<lparr> target = mcpServerUrl c @ ''/mcp/generate-html'',
       payload = JObj [(''proposal'', proposalData),
                       (''provider'', JStr (provider_or_default c provider))] \<rparr>"

definition generateHtml ::
  "laravel \<Rightarrow> McpClient \<Rightarrow> jsval \<Rightarrow> string option \<Rightarrow> php_error + string" where
  "generateHtml L c proposalData provider =
     (case http_post L (html_request c proposalData provider) of
        ConnectionFailed \<Rightarrow> Inl ConnectionException
      | HttpResponse st body \<Rightarrow>
          return_string L (null_coalesce (response_json body ''html'') (JStr [])))"

section \<open>Concrete worlds\<close>

text \<open>Vendors with a fixed behaviour, an empty environment and plain printers, to run
  the definitions on.\<close>

definition vendor_down :: "request \<Rightarrow> outcome" where
  "vendor_down r = NoResponse"

definition vendor_replies :: "nat \<Rightarrow> jsval \<Rightarrow> request \<Rightarrow> outcome" where
  "vendor_replies st d r = Response st d"

definition vendor_chat_reply :: jsval where
  "vendor_chat_reply =
     JObj [(''choices'',
       JArr [JObj [(''message'',
         JObj [(''role'', JStr ''assistant''),
               (''content'', JStr ''We build high-quality applications.'')])]])]"

definition vendor_gemini_reply :: jsval where
  "vendor_gemini_reply =
     JObj [(''candidates'',
       JArr [JObj [(''content'',
         JObj [(''parts'', JArr [JObj [(''text'', JStr ''<html>...</html>'')]])])]])]"

definition env_empty :: "string \<Rightarrow> string option" where
  "env_empty k = None"

definition print_zero :: "rat \<Rightarrow> string" where
  "print_zero r = ''0''"

definition print_braces :: "jsval \<Rightarrow> string" where
  "print_braces v = ''{}''"

definition listen_accepts :: "jsval \<Rightarrow> error option" where
  "listen_accepts p = None"

definition listen_refuses :: "jsval \<Rightarrow> error option" where
  "listen_refuses p = Some RangeError"

definition env_bad_port :: "string \<Rightarrow> string option" where
  "env_bad_port k = (if k = ''PORT'' then Some ''99999'' else None)"

definition env_groq_key :: "string \<Rightarrow> string option" where
  "env_groq_key k = (if k = ''GROQ_API_KEY'' then Some ''gsk_test'' else None)"

definition world_of :: "(request \<Rightarrow> outcome) \<Rightarrow> world" where
  "world_of vendor =
     \<lparr> post = vendor, env = env_empty, numstr = print_zero, stringify = print_braces,
       listen = listen_accepts \<rparr>"

definition world_bad_port :: world where
  "world_bad_port =
     \<lparr> post = vendor_down, env = env_bad_port, numstr = print_zero, stringify = print_braces,
       listen = listen_refuses \<rparr>"

definition server_groq :: server where
  "server_groq = \<lparr> PORT = JNum 3001, defaultProvider = ''groq'' \<rparr>"

definition gateway_down :: "php_request \<Rightarrow> http_result" where
  "gateway_down r = ConnectionFailed"

definition gateway_replies :: "nat \<Rightarrow> jsval option \<Rightarrow> php_request \<Rightarrow> http_result" where
  "gateway_replies st body r = HttpResponse st body"

definition laravel_of :: "(php_request \<Rightarrow> http_result) \<Rightarrow> laravel" where
  "laravel_of gateway = \<lparr> http_post = gateway, strval = print_zero \<rparr>"

definition client_local :: McpClient where
  "client_local = \<lparr> mcpServerUrl = ''http://localhost:3001'', clientDefaultProvider = ''groq'' \<rparr>"

section \<open>Properties of callAI\<close>

text \<open>
  Claim C1. A provider outside groq, openai, deepseek and gemini makes \<open>callAI\<close> fail, and
  no request has been handed to the network when it does. The failure is the
  unsupported-provider error whenever the provider and the user prompt can be printed,
  as every string can.
\<close>

theorem callAI_unsupported_provider:
  assumes "provider \<notin> {JStr ''groq'', JStr ''openai'', JStr ''deepseek'', JStr ''gemini''}"
  shows "snd (callAI w provider systemPrompt userPrompt) = []
     \<and> (\<exists>e. fst (callAI w provider systemPrompt userPrompt) = Inl e)
     \<and> (printable provider \<and> printable userPrompt \<longrightarrow>
          callAI w provider systemPrompt userPrompt = (Inl UnsupportedProvider, []))"
  using assms by (simp add: callAI_def)

theorem callAI_unsupported_provider_witness:
  "JStr ''unknown-vendor'' \<notin> {JStr ''groq'', JStr ''openai'', JStr ''deepseek'', JStr ''gemini''}
   \<and> printable (JStr ''unknown-vendor'') \<and> printable (JStr ''hello'')
   \<and> callAI (world_of vendor_down) (JStr ''unknown-vendor'') ''be brief'' (JStr ''hello'')
       = (Inl UnsupportedProvider, [])"
  using callAI_unsupported_provider
    [where provider = "JStr ''unknown-vendor''" and userPrompt = "JStr ''hello''"
       and w = "world_of vendor_down" and systemPrompt = "''be brief''"]
  by simp

lemma chat_call_outcome:
  "chat_call w endpoint model key sp up =
     (case post w (chat_request w endpoint model key sp up) of
        NoResponse \<Rightarrow> Inl (AxiosError None)
      | Response st d \<Rightarrow>
          if st < 200 \<or> 300 \<le> st then Inl (AxiosError (Some d))
          else if nullish d then Inl TypeError
          else Inr (opt_prop ''content'' (opt_prop ''message'' (opt_index0 (own_prop ''choices'' d)))),
      [chat_request w endpoint model key sp up])"
  by (auto simp: chat_call_def axios_post_def chat_extract_def get_prop_def Let_def
           split: outcome.splits)

lemma gemini_call_outcome:
  "gemini_call w sp up =
     (case post w (gemini_request w sp up) of
        NoResponse \<Rightarrow> Inl (AxiosError None)
      | Response st d \<Rightarrow>
          if st < 200 \<or> 300 \<le> st then Inl (AxiosError (Some d))
          else if nullish d then Inl TypeError
          else Inr (js_or (opt_prop ''text'' (opt_index0 (opt_prop ''parts''
                 (opt_prop ''content'' (opt_index0 (own_prop ''candidates'' d)))))) (JStr [])),
      [gemini_request w sp up])"
  by (auto simp: gemini_call_def axios_post_def gemini_extract_def get_prop_def Let_def
           split: outcome.splits)

text \<open>
  Claim C2, as amended. For each of the four providers and every system prompt and
  printable user prompt (every string is one), exactly one request is made, and
  its outcome decides the result of \<open>callAI\<close>: no response is a failure, a status outside
  200..299 is a failure that carries the response's payload, and a \<^verbatim>\<open>null\<close> body is a
  failure (the \<^verbatim>\<open>TypeError\<close> of reading a property of it). Every other body with a
  status in 200..299 gives a value, never a failure: for the chat-completion providers
  the content of the first choice's message, which is \<^verbatim>\<open>undefined\<close> when it is not
  there, and for gemini the text of the first part of the first candidate when that is
  truthy, and the empty string when it is missing or falsy.
\<close>

theorem callAI_known_provider_outcome:
  assumes "provider \<in> {JStr ''groq'', JStr ''openai'', JStr ''deepseek'', JStr ''gemini''}"
      and "printable userPrompt"
  shows "\<exists>r. snd (callAI w provider systemPrompt userPrompt) = [r] \<and>
     fst (callAI w provider systemPrompt userPrompt) =
       (case post w r of
          NoResponse \<Rightarrow> Inl (AxiosError None)
        | Response st d \<Rightarrow>
            if st < 200 \<or> 300 \<le> st then Inl (AxiosError (Some d))
            else if nullish d then Inl TypeError
            else if provider = JStr ''gemini'' then
              (if truthy (opt_prop ''text'' (opt_index0 (opt_prop ''parts''
                     (opt_prop ''content'' (opt_index0 (own_prop ''candidates'' d))))))
               then Inr (opt_prop ''text'' (opt_index0 (opt_prop ''parts''
                     (opt_prop ''content'' (opt_index0 (own_prop ''candidates'' d))))))
               else Inr (JStr []))
            else
              Inr (opt_prop ''content'' (opt_prop ''message''
                     (opt_index0 (own_prop ''choices'' d)))))"
proof -
  consider "provider = JStr ''groq''" | "provider = JStr ''openai''"
    | "provider = JStr ''deepseek''" | "provider = JStr ''gemini''"
    using assms by blast
  then show ?thesis
  proof cases
    case 1 with assms(2) show ?thesis
      by (simp add: callAI_def chat_call_outcome split: outcome.split)
  next
    case 2 with assms(2) show ?thesis
      by (simp add: callAI_def chat_call_outcome split: outcome.split)
  next
    case 3 with assms(2) show ?thesis
      by (simp add: callAI_def chat_call_outcome split: outcome.split)
  next
    case 4 with assms(2) show ?thesis
      by (simp add: callAI_def gemini_call_outcome js_or_def split: outcome.split)
  qed
qed

theorem callAI_known_provider_outcome_witness:
  "JStr ''groq'' \<in> {JStr ''groq'', JStr ''openai'', JStr ''deepseek'', JStr ''gemini''}
   \<and> JStr ''gemini'' \<in> {JStr ''groq'', JStr ''openai'', JStr ''deepseek'', JStr ''gemini''}
   \<and> printable (JStr ''hello'')
   \<and> fst (callAI (world_of (vendor_replies 503 (JStr ''busy''))) (JStr ''groq'') ''be brief''
            (JStr ''hello'')) = Inl (AxiosError (Some (JStr ''busy'')))
   \<and> fst (callAI (world_of vendor_down) (JStr ''gemini'') ''be brief'' (JStr ''hello''))
       = Inl (AxiosError None)
   \<and> fst (callAI (world_of (vendor_replies 200 (JObj []))) (JStr ''gemini'') ''be brief''
            (JStr ''hello'')) = Inr (JStr [])
   \<and> fst (callAI (world_of (vendor_replies 200 (JObj [(''candidates'', JArr [])])))
            (JStr ''gemini'') ''be brief'' (JStr ''hello'')) = Inr (JStr [])
   \<and> fst (callAI (world_of (vendor_replies 200 vendor_gemini_reply)) (JStr ''gemini'')
            ''be brief'' (JStr ''hello'')) = Inr (JStr ''<html>...</html>'')
   \<and> fst (callAI (world_of (vendor_replies 200 (JObj [(''choices'', JArr [])])))
            (JStr ''openai'') ''be brief'' (JStr ''hello'')) = Inr JUndef"
proof -
  have p: "printable (JStr ''hello'')" by simp
  have g: "JStr ''groq'' \<in> {JStr ''groq'', JStr ''openai'', JStr ''deepseek'', JStr ''gemini''}"
    and o: "JStr ''openai'' \<in> {JStr ''groq'', JStr ''openai'', JStr ''deepseek'', JStr ''gemini''}"
    and m: "JStr ''gemini'' \<in> {JStr ''groq'', JStr ''openai'', JStr ''deepseek'', JStr ''gemini''}"
    by simp_all
  have 1: "fst (callAI (world_of (vendor_replies 503 (JStr ''busy''))) (JStr ''groq'')
             ''be brief'' (JStr ''hello'')) = Inl (AxiosError (Some (JStr ''busy'')))"
    using callAI_known_provider_outcome [OF g p,
        where w = "world_of (vendor_replies 503 (JStr ''busy''))" and systemPrompt = "''be brief''"]
    by (simp add: world_of_def vendor_replies_def)
  have 2: "fst (callAI (world_of vendor_down) (JStr ''gemini'') ''be brief'' (JStr ''hello''))
             = Inl (AxiosError None)"
    using callAI_known_provider_outcome [OF m p,
        where w = "world_of vendor_down" and systemPrompt = "''be brief''"]
    by (simp add: world_of_def vendor_down_def)
  have 3: "fst (callAI (world_of (vendor_replies 200 (JObj []))) (JStr ''gemini'') ''be brief''
            (JStr ''hello'')) = Inr (JStr [])"
    using callAI_known_provider_outcome [OF m p,
        where w = "world_of (vendor_replies 200 (JObj []))" and systemPrompt = "''be brief''"]
    by (simp add: world_of_def vendor_replies_def nullish_def opt_prop_def opt_index0_def)
  have 4: "fst (callAI (world_of (vendor_replies 200 (JObj [(''candidates'', JArr [])])))
            (JStr ''gemini'') ''be brief'' (JStr ''hello'')) = Inr (JStr [])"
    using callAI_known_provider_outcome [OF m p,
        where w = "world_of (vendor_replies 200 (JObj [(''candidates'', JArr [])]))"
          and systemPrompt = "''be brief''"]
    by (simp add: world_of_def vendor_replies_def nullish_def opt_prop_def opt_index0_def)
  have 5: "fst (callAI (world_of (vendor_replies 200 vendor_gemini_reply)) (JStr ''gemini'')
            ''be brief'' (JStr ''hello'')) = Inr (JStr ''<html>...</html>'')"
    using callAI_known_provider_outcome [OF m p,
        where w = "world_of (vendor_replies 200 vendor_gemini_reply)"
          and systemPrompt = "''be brief''"]
    by (simp add: world_of_def vendor_replies_def vendor_gemini_reply_def nullish_def
          opt_prop_def opt_index0_def)
  have 6: "fst (callAI (world_of (vendor_replies 200 (JObj [(''choices'', JArr [])])))
            (JStr ''openai'') ''be brief'' (JStr ''hello'')) = Inr JUndef"
    using callAI_known_provider_outcome [OF o p,
        where w = "world_of (vendor_replies 200 (JObj [(''choices'', JArr [])]))"
          and systemPrompt = "''be brief''"]
    by (simp add: world_of_def vendor_replies_def nullish_def opt_prop_def opt_index0_def)
  from g m p 1 2 3 4 5 6 show ?thesis by simp
qed

text \<open>The claim as the specification words it asks for a failure whenever the text
  cannot be extracted; a body \<^verbatim>\<open>{}\<close> with status 200 gives \<^verbatim>\<open>undefined\<close>, not a failure.\<close>

theorem malformed_body_not_a_failure:
  "fst (callAI (world_of (vendor_replies 200 (JObj []))) (JStr ''groq'') ''be brief''
         (JStr ''hello'')) = Inr JUndef"
  by (simp add: callAI_def chat_call_outcome world_of_def vendor_replies_def nullish_def
        opt_prop_def opt_index0_def)

lemma callAI_unprintable:
  "\<not> printable userPrompt \<Longrightarrow> callAI w provider sp userPrompt = (Inl TypeError, [])"
  by (simp add: callAI_def)

lemma callAI_chat_branch:
  assumes "provider \<in> {JStr ''groq'', JStr ''openai'', JStr ''deepseek''}"
      and "printable up"
  shows "\<exists>endpoint model key.
           callAI w provider sp up = chat_call w endpoint model key sp up"
proof -
  consider "provider = JStr ''groq''" | "provider = JStr ''openai''"
    | "provider = JStr ''deepseek''"
    using assms by blast
  then show ?thesis
  proof cases
    case 1 with assms(2) show ?thesis unfolding callAI_def by (intro exI) simp
  next
    case 2 with assms(2) show ?thesis unfolding callAI_def by (intro exI) simp
  next
    case 3 with assms(2) show ?thesis unfolding callAI_def by (intro exI) simp
  qed
qed

lemma chat_request_messages:
  "own_prop ''messages'' (data (chat_request w endpoint model key sp up)) =
     JArr (chat_messages sp up)"
  by (simp add: chat_request_def)

lemma chat_request_temperature:
  "own_prop ''temperature'' (data (chat_request w endpoint model key sp up)) = JNum (7 / 10)"
  by (simp add: chat_request_def)

text \<open>
  Claim C6. For groq, openai and deepseek, and every system prompt and printable user
  prompt (every string is one), the body of the one request made has as its
  \<^verbatim>\<open>messages\<close> a system message holding the system prompt exactly when that prompt is
  not empty, followed by one user message holding the user prompt, and its
  \<^verbatim>\<open>temperature\<close> is 0.7. When \<open>callAI\<close> returns a value, a response came back and the
  value is the content of the message of \<^verbatim>\<open>choices?.[0]\<close>: the first element, when
  \<^verbatim>\<open>choices\<close> is a non-empty array.
\<close>

theorem chat_request_shape_and_extraction:
  assumes "provider \<in> {JStr ''groq'', JStr ''openai'', JStr ''deepseek''}"
      and "printable userPrompt"
  shows "\<exists>r. snd (callAI w provider systemPrompt userPrompt) = [r]
     \<and> own_prop ''messages'' (data r) =
         JArr ((if systemPrompt \<noteq> []
                then [JObj [(''role'', JStr ''system''), (''content'', JStr systemPrompt)]]
                else [])
               @ [JObj [(''role'', JStr ''user''), (''content'', userPrompt)]])
     \<and> own_prop ''temperature'' (data r) = JNum (7 / 10)
     \<and> (\<forall>v. fst (callAI w provider systemPrompt userPrompt) = Inr v \<longrightarrow>
           (\<exists>st d. post w r = Response st d
              \<and> v = opt_prop ''content'' (opt_prop ''message''
                       (opt_index0 (own_prop ''choices'' d)))
              \<and> (\<forall>c cs. own_prop ''choices'' d = JArr (c # cs) \<longrightarrow>
                    v = opt_prop ''content'' (opt_prop ''message'' c))))"
proof -
  obtain endpoint model key where
    c: "callAI w provider systemPrompt userPrompt
          = chat_call w endpoint model key systemPrompt userPrompt"
    using callAI_chat_branch [OF assms] by blast
  let ?r = "chat_request w endpoint model key systemPrompt userPrompt"
  have s: "snd (callAI w provider systemPrompt userPrompt) = [?r]"
    by (simp add: c chat_call_outcome)
  have m: "own_prop ''messages'' (data ?r) =
         JArr ((if systemPrompt \<noteq> []
                then [JObj [(''role'', JStr ''system''), (''content'', JStr systemPrompt)]]
                else [])
               @ [JObj [(''role'', JStr ''user''), (''content'', userPrompt)]])"
    by (simp add: chat_request_messages chat_messages_def)
  have t: "own_prop ''temperature'' (data ?r) = JNum (7 / 10)"
    by (rule chat_request_temperature)
  have e: "\<exists>st d. post w ?r = Response st d
              \<and> v = opt_prop ''content'' (opt_prop ''message''
                       (opt_index0 (own_prop ''choices'' d)))
              \<and> (\<forall>c cs. own_prop ''choices'' d = JArr (c # cs) \<longrightarrow>
                    v = opt_prop ''content'' (opt_prop ''message'' c))"
    if "fst (callAI w provider systemPrompt userPrompt) = Inr v" for v
  proof -
    from that obtain st d where p: "post w ?r = Response st d"
      and v: "v = opt_prop ''content'' (opt_prop ''message''
                    (opt_index0 (own_prop ''choices'' d)))"
      by (auto simp: c chat_call_outcome split: outcome.splits if_splits)
    have "\<forall>c cs. own_prop ''choices'' d = JArr (c # cs) \<longrightarrow>
            v = opt_prop ''content'' (opt_prop ''message'' c)"
      using v by (simp add: opt_index0_def nullish_def)
    with p v show ?thesis by blast
  qed
  from s m t e show ?thesis by blast
qed

lemma callAI_groq_sample:
  "callAI (world_of (vendor_replies 200 vendor_chat_reply)) (JStr ''groq'') ''be brief''
            (JStr ''We build apps'')
   = (Inr (JStr ''We build high-quality applications.''),
      [chat_request (world_of (vendor_replies 200 vendor_chat_reply))
         ''https://api.groq.com/openai/v1/chat/completions''
         ''meta-llama/llama-4-scout-17b-16e-instruct'' ''GROQ_API_KEY'' ''be brief''
         (JStr ''We build apps'')])"
  by (simp add: callAI_def chat_call_outcome world_of_def vendor_replies_def
        vendor_chat_reply_def nullish_def opt_prop_def opt_index0_def)

theorem chat_request_shape_and_extraction_witness:
  "JStr ''groq'' \<in> {JStr ''groq'', JStr ''openai'', JStr ''deepseek''}
   \<and> printable (JStr ''We build apps'')
   \<and> (\<exists>r. snd (callAI (world_of (vendor_replies 200 vendor_chat_reply)) (JStr ''groq'')
                ''be brief'' (JStr ''We build apps'')) = [r]
        \<and> own_prop ''messages'' (data r) =
            JArr [JObj [(''role'', JStr ''system''), (''content'', JStr ''be brief'')],
                  JObj [(''role'', JStr ''user''), (''content'', JStr ''We build apps'')]]
        \<and> own_prop ''temperature'' (data r) = JNum (7 / 10))
   \<and> fst (callAI (world_of (vendor_replies 200 vendor_chat_reply)) (JStr ''groq'')
             ''be brief'' (JStr ''We build apps''))
       = Inr (JStr ''We build high-quality applications.'')"
  using chat_request_shape_and_extraction
    [where provider = "JStr ''groq''" and userPrompt = "JStr ''We build apps''"
       and w = "world_of (vendor_replies 200 vendor_chat_reply)"
       and systemPrompt = "''be brief''"]
  by (auto simp: callAI_groq_sample)
lemma gemini_request_data:
  "data (gemini_request w sp (JStr up)) =
     JObj [(''contents'', JArr [JObj [(''parts'', JArr [JObj [(''text'',
        JStr (if sp = [] then up else sp @ [CHR 0x0A, CHR 0x0A] @ up))]])]])]"
  by (simp add: gemini_request_def fullPrompt_def newline2_def)

text \<open>
  Claim C7. For gemini the one request made carries a single text: the user prompt alone
  when the system prompt is empty, and otherwise the system prompt, two newlines (a blank
  line) and the user prompt. When \<open>callAI\<close> returns a value, a response came back and the
  value is read from \<^verbatim>\<open>candidates?.[0]?.content?.parts?.[0]?.text\<close>, with the empty
  string standing in for a missing or falsy text; no \<^verbatim>\<open>choices\<close> array is consulted.
\<close>

theorem gemini_prompt_and_extraction:
  "\<exists>r. snd (callAI w (JStr ''gemini'') systemPrompt (JStr userPrompt)) = [r]
     \<and> data r =
         JObj [(''contents'', JArr [JObj [(''parts'', JArr [JObj [(''text'',
           JStr (if systemPrompt = [] then userPrompt
                 else systemPrompt @ [CHR 0x0A, CHR 0x0A] @ userPrompt))]])]])]
     \<and> (\<forall>v. fst (callAI w (JStr ''gemini'') systemPrompt (JStr userPrompt)) = Inr v \<longrightarrow>
           (\<exists>st d. post w r = Response st d
              \<and> v = js_or (opt_prop ''text'' (opt_index0 (opt_prop ''parts''
                        (opt_prop ''content'' (opt_index0 (own_prop ''candidates'' d))))))
                      (JStr [])))"
proof -
  let ?r = "gemini_request w systemPrompt (JStr userPrompt)"
  have c: "callAI w (JStr ''gemini'') systemPrompt (JStr userPrompt)
             = gemini_call w systemPrompt (JStr userPrompt)"
    by (simp add: callAI_def)
  have s: "snd (callAI w (JStr ''gemini'') systemPrompt (JStr userPrompt)) = [?r]"
    by (simp add: c gemini_call_outcome)
  have e: "\<exists>st d. post w ?r = Response st d
              \<and> v = js_or (opt_prop ''text'' (opt_index0 (opt_prop ''parts''
                        (opt_prop ''content'' (opt_index0 (own_prop ''candidates'' d))))))
                      (JStr [])"
    if "fst (callAI w (JStr ''gemini'') systemPrompt (JStr userPrompt)) = Inr v" for v
    using that by (auto simp: c gemini_call_outcome split: outcome.splits if_splits)
  from s gemini_request_data [of w systemPrompt userPrompt] e show ?thesis by blast
qed

lemma callAI_gemini_sample:
  "callAI (world_of (vendor_replies 200 vendor_gemini_reply)) (JStr ''gemini'') ''Be brief''
            (JStr ''Draw a page'')
   = (Inr (JStr ''<html>...</html>''),
      [gemini_request (world_of (vendor_replies 200 vendor_gemini_reply)) ''Be brief''
         (JStr ''Draw a page'')])"
  by (simp add: callAI_def gemini_call_outcome world_of_def vendor_replies_def
        vendor_gemini_reply_def nullish_def opt_prop_def opt_index0_def js_or_def)

theorem gemini_prompt_and_extraction_witness:
  "(\<exists>r. snd (callAI (world_of (vendor_replies 200 vendor_gemini_reply)) (JStr ''gemini'')
                ''Be brief'' (JStr ''Draw a page'')) = [r]
        \<and> data r =
            JObj [(''contents'', JArr [JObj [(''parts'', JArr [JObj [(''text'',
              JStr (''Be brief'' @ [CHR 0x0A, CHR 0x0A] @ ''Draw a page''))]])]])])
   \<and> fst (callAI (world_of (vendor_replies 200 vendor_gemini_reply)) (JStr ''gemini'')
             ''Be brief'' (JStr ''Draw a page'')) = Inr (JStr ''<html>...</html>'')"
  using gemini_prompt_and_extraction
    [where w = "world_of (vendor_replies 200 vendor_gemini_reply)"
       and systemPrompt = "''Be brief''" and userPrompt = "''Draw a page''"]
  by (auto simp: callAI_gemini_sample)

section \<open>Properties of the request handlers\<close>

lemma enhance_systemPrompt_nonempty: "enhance_systemPrompt \<noteq> []"
  by (simp add: enhance_systemPrompt_def)

lemma wire_success_reply:
  "wire (JObj [(''success'', JBool True), (k, result)]) =
     JObj ((''success'', JBool True) # (if result = JUndef then [] else [(k, wire result)]))"
  by simp

lemma wire_failure_reply:
  "wire (JObj [(''success'', JBool False), (''error'', JStr msg)]) =
     JObj [(''success'', JBool False), (''error'', JStr msg)]"
  by simp

lemma text_enhancement_reply:
  assumes "\<not> nullish body"
  shows "text_enhancement w srv body =
     (case fst (callAI w (provider_of srv body) enhance_systemPrompt (own_prop ''text'' body)) of
        Inr result \<Rightarrow>
          Reply 200 (JObj ((''success'', JBool True) #
            (if result = JUndef then [] else [(''enhancedText'', wire result)])))
      | Inl err \<Rightarrow>
          Reply 500 (JObj [(''success'', JBool False),
                           (''error'', JStr ''Failed to enhance text'')]),
      snd (callAI w (provider_of srv body) enhance_systemPrompt (own_prop ''text'' body)))"
  using assms
  by (simp add: text_enhancement_def Let_def split_beta wire_success_reply wire_failure_reply
           del: wire.simps split: sum.split)

lemma generate_html_reply:
  assumes "\<not> nullish body"
  shows "generate_html w srv body =
     (case fst (callAI w (provider_of srv body)
                  (html_systemPrompt w (own_prop ''proposal'' body)) (JStr [])) of
        Inr result \<Rightarrow>
          Reply 200 (JObj ((''success'', JBool True) #
            (if result = JUndef then [] else [(''html'', wire result)])))
      | Inl err \<Rightarrow>
          Reply 500 (JObj [(''success'', JBool False),
                           (''error'', JStr ''Failed to generate HTML'')]),
      snd (callAI w (provider_of srv body)
                  (html_systemPrompt w (own_prop ''proposal'' body)) (JStr [])))"
  using assms
  by (simp add: generate_html_def Let_def split_beta wire_success_reply wire_failure_reply
           del: wire.simps split: sum.split)
lemma provider_of_default:
  "provider_of server_groq (JObj [(''text'', t)]) = JStr ''groq''"
  by (simp add: provider_of_def server_groq_def)

lemma not_nullish_JObj: "\<not> nullish (JObj kvs)"
  by (simp add: nullish_def)

text \<open>
  Claim C5, as amended. For a request body that is an object or an array (anything but
  \<^verbatim>\<open>null\<close> and \<^verbatim>\<open>undefined\<close>), \<^verbatim>\<open>POST /mcp/text-enhancement\<close> replies 200 with
  \<^verbatim>\<open>success: true\<close> exactly when \<open>callAI\<close> returns a value and 500 with
  \<^verbatim>\<open>{success: false, error: 'Failed to enhance text'}\<close> exactly when it throws. The 200
  reply carries under \<^verbatim>\<open>enhancedText\<close> whatever value \<open>callAI\<close> returned, of any JSON
  type, and has no such field when that value is \<^verbatim>\<open>undefined\<close>.
  \<^verbatim>\<open>POST /mcp/generate-html\<close> does the same with \<^verbatim>\<open>html\<close> and
  \<^verbatim>\<open>'Failed to generate HTML'\<close>.
\<close>

theorem handlers_reply_by_callAI_outcome:
  assumes "\<not> nullish body"
  shows "fst (text_enhancement w srv body) =
     (case fst (callAI w (provider_of srv body) enhance_systemPrompt (own_prop ''text'' body)) of
        Inr result \<Rightarrow>
          Reply 200 (JObj ((''success'', JBool True) #
            (if result = JUndef then [] else [(''enhancedText'', wire result)])))
      | Inl err \<Rightarrow>
          Reply 500 (JObj [(''success'', JBool False),
                           (''error'', JStr ''Failed to enhance text'')]))
   \<and> fst (generate_html w srv body) =
     (case fst (callAI w (provider_of srv body)
                  (html_systemPrompt w (own_prop ''proposal'' body)) (JStr [])) of
        Inr result \<Rightarrow>
          Reply 200 (JObj ((''success'', JBool True) #
            (if result = JUndef then [] else [(''html'', wire result)])))
      | Inl err \<Rightarrow>
          Reply 500 (JObj [(''success'', JBool False),
                           (''error'', JStr ''Failed to generate HTML'')]))"
  by (simp add: text_enhancement_reply [OF assms] generate_html_reply [OF assms])

theorem handlers_reply_by_callAI_outcome_witness:
  "\<not> nullish (JObj [(''text'', JStr ''We build apps'')])
   \<and> fst (text_enhancement (world_of (vendor_replies 200 vendor_chat_reply)) server_groq
            (JObj [(''text'', JStr ''We build apps'')]))
       = Reply 200 (JObj [(''success'', JBool True),
                          (''enhancedText'', JStr ''We build high-quality applications.'')])
   \<and> fst (generate_html (world_of vendor_down) server_groq
            (JObj [(''text'', JStr ''We build apps'')]))
       = Reply 500 (JObj [(''success'', JBool False),
                          (''error'', JStr ''Failed to generate HTML'')])"
  using handlers_reply_by_callAI_outcome
    [of "JObj [(''text'', JStr ''We build apps'')]"
        "world_of (vendor_replies 200 vendor_chat_reply)" server_groq]
    handlers_reply_by_callAI_outcome
    [of "JObj [(''text'', JStr ''We build apps'')]" "world_of vendor_down" server_groq]
  by (simp add: not_nullish_JObj provider_of_default callAI_def chat_call_outcome
        world_of_def vendor_replies_def vendor_down_def vendor_chat_reply_def
        enhance_systemPrompt_def nullish_def opt_prop_def opt_index0_def)

text \<open>The claim as the specification words it promises a string under
  \<^verbatim>\<open>enhancedText\<close> in every 200 reply; a vendor body \<^verbatim>\<open>{}\<close> gives a 200 reply without
  the field.\<close>

theorem success_reply_without_enhancedText:
  "fst (text_enhancement (world_of (vendor_replies 200 (JObj []))) server_groq
          (JObj [(''text'', JStr ''We build apps'')]))
   = Reply 200 (JObj [(''success'', JBool True)])"
  by (simp add: text_enhancement_reply not_nullish_JObj provider_of_default callAI_def
        chat_call_outcome world_of_def vendor_replies_def nullish_def opt_prop_def
        opt_index0_def)

text \<open>
  Claim C9. A text-enhancement request whose text is the empty string, for any of the
  four providers, makes one outbound request built from the fixed enhancement prompt and
  the empty user prompt: for groq, openai and deepseek its messages are the system
  message with the fixed prompt and a user message with empty content; for gemini its
  single text is the fixed prompt followed by the blank line. Whatever the vendor
  answers, the handler replies, with status 200 or 500: no exception leaves it.
\<close>

theorem text_enhancement_empty_text:
  assumes "provider \<in> {JStr ''groq'', JStr ''openai'', JStr ''deepseek'', JStr ''gemini''}"
  shows "\<exists>r. snd (text_enhancement w srv (JObj [(''text'', JStr []), (''provider'', provider)])) = [r]
     \<and> (provider \<in> {JStr ''groq'', JStr ''openai'', JStr ''deepseek''} \<longrightarrow>
          own_prop ''messages'' (data r) =
            JArr [JObj [(''role'', JStr ''system''), (''content'', JStr enhance_systemPrompt)],
                  JObj [(''role'', JStr ''user''), (''content'', JStr [])]])
     \<and> (provider = JStr ''gemini'' \<longrightarrow>
          data r = JObj [(''contents'', JArr [JObj [(''parts'', JArr [JObj [(''text'',
                     JStr (enhance_systemPrompt @ [CHR 0x0A, CHR 0x0A]))]])]])])
     \<and> (\<exists>st b. fst (text_enhancement w srv (JObj [(''text'', JStr []), (''provider'', provider)]))
                  = Reply st b \<and> (st = 200 \<or> st = 500))"
proof -
  let ?body = "JObj [(''text'', JStr []), (''provider'', provider)]"
  have p: "provider_of srv ?body = provider"
    using assms by (auto simp: provider_of_def)
  have t: "text_enhancement w srv ?body =
     (case fst (callAI w provider enhance_systemPrompt (JStr [])) of
        Inr result \<Rightarrow>
          Reply 200 (JObj ((''success'', JBool True) #
            (if result = JUndef then [] else [(''enhancedText'', wire result)])))
      | Inl err \<Rightarrow>
          Reply 500 (JObj [(''success'', JBool False),
                           (''error'', JStr ''Failed to enhance text'')]),
      snd (callAI w provider enhance_systemPrompt (JStr [])))"
    using text_enhancement_reply [OF not_nullish_JObj, of w srv "[(''text'', JStr []), (''provider'', provider)]"]
    by (simp add: p)
  have r: "\<exists>st b. fst (text_enhancement w srv ?body) = Reply st b \<and> (st = 200 \<or> st = 500)"
    by (simp add: t split: sum.split)
  show ?thesis
  proof (cases "provider = JStr ''gemini''")
    case True
    have "snd (text_enhancement w srv ?body) = [gemini_request w enhance_systemPrompt (JStr [])]"
      unfolding t by (simp add: True callAI_def gemini_call_outcome)
    moreover have "data (gemini_request w enhance_systemPrompt (JStr [])) =
        JObj [(''contents'', JArr [JObj [(''parts'', JArr [JObj [(''text'',
                     JStr (enhance_systemPrompt @ [CHR 0x0A, CHR 0x0A]))]])]])]"
      by (simp add: gemini_request_data enhance_systemPrompt_nonempty)
    ultimately show ?thesis using r True by simp
  next
    case False
    with assms have chat: "provider \<in> {JStr ''groq'', JStr ''openai'', JStr ''deepseek''}"
      by blast
    obtain endpoint model key where
      c: "callAI w provider enhance_systemPrompt (JStr [])
            = chat_call w endpoint model key enhance_systemPrompt (JStr [])"
      using callAI_chat_branch [OF chat, of "JStr []" w enhance_systemPrompt] by auto
    have "snd (text_enhancement w srv ?body)
            = [chat_request w endpoint model key enhance_systemPrompt (JStr [])]"
      unfolding t by (simp add: c chat_call_outcome)
    moreover have "own_prop ''messages''
        (data (chat_request w endpoint model key enhance_systemPrompt (JStr []))) =
            JArr [JObj [(''role'', JStr ''system''), (''content'', JStr enhance_systemPrompt)],
                  JObj [(''role'', JStr ''user''), (''content'', JStr [])]]"
      by (simp add: chat_request_messages chat_messages_def enhance_systemPrompt_nonempty)
    ultimately show ?thesis using r False by simp
  qed
qed

theorem text_enhancement_empty_text_witness:
  "JStr ''groq'' \<in> {JStr ''groq'', JStr ''openai'', JStr ''deepseek'', JStr ''gemini''}
   \<and> map (own_prop ''messages'' \<circ> data)
        (snd (text_enhancement (world_of (vendor_replies 200 vendor_chat_reply)) server_groq
           (JObj [(''text'', JStr []), (''provider'', JStr ''groq'')])))
      = [JArr [JObj [(''role'', JStr ''system''), (''content'', JStr enhance_systemPrompt)],
               JObj [(''role'', JStr ''user''), (''content'', JStr [])]]]
   \<and> fst (text_enhancement (world_of (vendor_replies 200 vendor_chat_reply)) server_groq
           (JObj [(''text'', JStr []), (''provider'', JStr ''groq'')]))
      = Reply 200 (JObj [(''success'', JBool True),
                         (''enhancedText'', JStr ''We build high-quality applications.'')])"
proof -
  let ?w = "world_of (vendor_replies 200 vendor_chat_reply)"
  let ?body = "JObj [(''text'', JStr []), (''provider'', JStr ''groq'')]"
  have m: "JStr ''groq'' \<in> {JStr ''groq'', JStr ''openai'', JStr ''deepseek'', JStr ''gemini''}"
    by simp
  from text_enhancement_empty_text [OF m, of ?w server_groq]
  obtain r where r: "snd (text_enhancement ?w server_groq ?body) = [r]"
    and d: "own_prop ''messages'' (data r) =
            JArr [JObj [(''role'', JStr ''system''), (''content'', JStr enhance_systemPrompt)],
                  JObj [(''role'', JStr ''user''), (''content'', JStr [])]]"
    by auto
  have f: "fst (text_enhancement ?w server_groq ?body)
      = Reply 200 (JObj [(''success'', JBool True),
                         (''enhancedText'', JStr ''We build high-quality applications.'')])"
    by (simp add: text_enhancement_reply not_nullish_JObj provider_of_def callAI_def
          chat_call_outcome world_of_def vendor_replies_def vendor_chat_reply_def nullish_def
          opt_prop_def opt_index0_def)
  from m r d f show ?thesis by simp
qed

text \<open>
  Claim C10, as amended. For groq, openai and deepseek: when the vendor answers the
  request of a text-enhancement call with a status in 200..299 and a body that is not
  \<^verbatim>\<open>null\<close> and has no content under the message of a first choice, \<open>callAI\<close> returns
  \<^verbatim>\<open>undefined\<close> without throwing and the endpoint replies 200 with \<^verbatim>\<open>{success: true}\<close>
  and no \<^verbatim>\<open>enhancedText\<close>.
\<close>

theorem chat_missing_content_replies_200:
  assumes "\<not> nullish body"
      and "provider_of srv body \<in> {JStr ''groq'', JStr ''openai'', JStr ''deepseek''}"
      and "snd (text_enhancement w srv body) = [r]"
      and "post w r = Response st d"
      and "200 \<le> st" and "st < 300"
      and "\<not> nullish d"
      and "opt_prop ''content'' (opt_prop ''message'' (opt_index0 (own_prop ''choices'' d)))
             = JUndef"
  shows "fst (callAI w (provider_of srv body) enhance_systemPrompt (own_prop ''text'' body))
           = Inr JUndef
     \<and> fst (text_enhancement w srv body) = Reply 200 (JObj [(''success'', JBool True)])"
proof -
  let ?p = "provider_of srv body" and ?t = "own_prop ''text'' body"
  have "printable ?t"
  proof (rule ccontr)
    assume "\<not> printable ?t"
    then have "snd (text_enhancement w srv body) = []"
      by (simp add: text_enhancement_reply [OF assms(1)] callAI_unprintable)
    with assms(3) show False by simp
  qed
  then obtain endpoint model key where
    c: "callAI w ?p enhance_systemPrompt ?t
          = chat_call w endpoint model key enhance_systemPrompt ?t"
    using callAI_chat_branch [OF assms(2)] by blast
  have "snd (text_enhancement w srv body)
          = [chat_request w endpoint model key enhance_systemPrompt ?t]"
    by (simp add: text_enhancement_reply [OF assms(1)] c chat_call_outcome)
  with assms(3) have r: "r = chat_request w endpoint model key enhance_systemPrompt ?t"
    by simp
  have a: "fst (callAI w ?p enhance_systemPrompt ?t) = Inr JUndef"
    using assms(4-8) by (simp add: c chat_call_outcome r [symmetric])
  then have "fst (text_enhancement w srv body) = Reply 200 (JObj [(''success'', JBool True)])"
    by (simp add: text_enhancement_reply [OF assms(1)])
  with a show ?thesis by simp
qed

lemma text_enhancement_groq_sample_calls:
  "snd (text_enhancement (world_of vendor) server_groq (JObj [(''text'', JStr t)]))
     = [chat_request (world_of vendor) ''https://api.groq.com/openai/v1/chat/completions''
          ''meta-llama/llama-4-scout-17b-16e-instruct'' ''GROQ_API_KEY''
          enhance_systemPrompt (JStr t)]"
  by (simp add: text_enhancement_reply not_nullish_JObj provider_of_default callAI_def
        chat_call_outcome)

theorem chat_missing_content_replies_200_witness:
  "\<not> nullish (JObj [(''text'', JStr ''We build apps'')])
   \<and> provider_of server_groq (JObj [(''text'', JStr ''We build apps'')])
        \<in> {JStr ''groq'', JStr ''openai'', JStr ''deepseek''}
   \<and> \<not> nullish (JObj [(''choices'', JArr [])])
   \<and> opt_prop ''content'' (opt_prop ''message''
          (opt_index0 (own_prop ''choices'' (JObj [(''choices'', JArr [])])))) = JUndef
   \<and> fst (callAI (world_of (vendor_replies 200 (JObj [(''choices'', JArr [])])))
            (JStr ''groq'') enhance_systemPrompt (JStr ''We build apps'')) = Inr JUndef
   \<and> fst (text_enhancement (world_of (vendor_replies 200 (JObj [(''choices'', JArr [])])))
            server_groq (JObj [(''text'', JStr ''We build apps'')]))
       = Reply 200 (JObj [(''success'', JBool True)])"
proof -
  let ?d = "JObj [(''choices'', JArr [])]"
  let ?w = "world_of (vendor_replies 200 ?d)"
  let ?body = "JObj [(''text'', JStr ''We build apps'')]"
  let ?r = "chat_request ?w ''https://api.groq.com/openai/v1/chat/completions''
          ''meta-llama/llama-4-scout-17b-16e-instruct'' ''GROQ_API_KEY''
          enhance_systemPrompt (JStr ''We build apps'')"
  have 1: "\<not> nullish ?body" by (rule not_nullish_JObj)
  have 2: "provider_of server_groq ?body \<in> {JStr ''groq'', JStr ''openai'', JStr ''deepseek''}"
    by (simp add: provider_of_default)
  have 3: "snd (text_enhancement ?w server_groq ?body) = [?r]"
    by (rule text_enhancement_groq_sample_calls)
  have 4: "post ?w ?r = Response 200 ?d"
    by (simp add: world_of_def vendor_replies_def)
  have 5: "\<not> nullish ?d" by (rule not_nullish_JObj)
  have 6: "opt_prop ''content'' (opt_prop ''message'' (opt_index0 (own_prop ''choices'' ?d)))
             = JUndef"
    by (simp add: opt_prop_def opt_index0_def nullish_def)
  from chat_missing_content_replies_200 [OF 1 2 3 4 _ _ 5 6] 1 2 5 6
  show ?thesis by (simp add: provider_of_default)
qed

text \<open>A body \<^verbatim>\<open>null\<close> has no first choice either, yet reading \<^verbatim>\<open>choices\<close> of it throws:
  the endpoint replies 500.\<close>

theorem null_body_replies_500:
  "fst (callAI (world_of (vendor_replies 200 JNull)) (JStr ''groq'') enhance_systemPrompt
          (JStr ''We build apps'')) = Inl TypeError
   \<and> fst (text_enhancement (world_of (vendor_replies 200 JNull)) server_groq
            (JObj [(''text'', JStr ''We build apps'')]))
       = Reply 500 (JObj [(''success'', JBool False),
                          (''error'', JStr ''Failed to enhance text'')])"
  by (simp add: text_enhancement_reply not_nullish_JObj provider_of_default callAI_def
        chat_call_outcome world_of_def vendor_replies_def nullish_def)

section \<open>Startup\<close>

lemma startup_fails_only_in_listen:
  "startup world_bad_port = Inl RangeError"
  by (simp add: startup_def world_bad_port_def listen_refuses_def)

text \<open>
  Claim C8, as amended. Loading the server looks at no credential: its outcome is the
  same for any two environments that agree on \<^verbatim>\<open>PORT\<close> and \<^verbatim>\<open>AI_PROVIDER\<close>, and the
  server starts exactly when \<^verbatim>\<open>app.listen\<close> accepts the port. When the credential of
  a provider is absent, a call to that provider is still sent, with the text
  \<^verbatim>\<open>undefined\<close> where the credential belongs (in the bearer token, or in the
  \<^verbatim>\<open>key\<close> parameter of the gemini URL), so that a missing credential can only show
  in what the vendor answers to the first call.
\<close>

theorem startup_reads_no_credential:
  "(\<forall>e. e ''PORT'' = env w ''PORT'' \<and> e ''AI_PROVIDER'' = env w ''AI_PROVIDER'' \<longrightarrow>
        startup (w\<lparr>env := e\<rparr>) = startup w)
   \<and> ((\<exists>srv. startup w = Inr srv) = (listen w (env_PORT w) = None))
   \<and> (env w ''GROQ_API_KEY'' = None \<longrightarrow>
        (\<exists>r. snd (callAI w (JStr ''groq'') systemPrompt (JStr userPrompt)) = [r]
           \<and> headers r = [(''Authorization'', ''Bearer undefined''),
                          (''Content-Type'', ''application/json'')]))
   \<and> (env w ''CHATGPT_API_KEY'' = None \<longrightarrow>
        (\<exists>r. snd (callAI w (JStr ''openai'') systemPrompt (JStr userPrompt)) = [r]
           \<and> headers r = [(''Authorization'', ''Bearer undefined''),
                          (''Content-Type'', ''application/json'')]))
   \<and> (env w ''DEEPSEEK_API_KEY'' = None \<longrightarrow>
        (\<exists>r. snd (callAI w (JStr ''deepseek'') systemPrompt (JStr userPrompt)) = [r]
           \<and> headers r = [(''Authorization'', ''Bearer undefined''),
                          (''Content-Type'', ''application/json'')]))
   \<and> (env w ''GEMINI_API_KEY'' = None \<longrightarrow>
        (\<exists>r. snd (callAI w (JStr ''gemini'') systemPrompt (JStr userPrompt)) = [r]
           \<and> url r = ''https://generativelanguage.googleapis.com/v1beta/models/gemini-pro:generateContent?key=undefined''))"
proof -
  have i: "startup (w\<lparr>env := e\<rparr>) = startup w"
    if "e ''PORT'' = env w ''PORT'' \<and> e ''AI_PROVIDER'' = env w ''AI_PROVIDER''" for e
  proof -
    have "env_PORT (w\<lparr>env := e\<rparr>) = env_PORT w"
      using that by (simp add: env_PORT_def)
    moreover have "env_defaultProvider (w\<lparr>env := e\<rparr>) = env_defaultProvider w"
      using that by (simp add: env_defaultProvider_def)
    ultimately show ?thesis by (simp add: startup_def split: option.split)
  qed
  have 0: "(\<exists>srv. startup w = Inr srv) = (listen w (env_PORT w) = None)"
    by (simp add: startup_def split: option.split)
  have 1: "\<exists>r. snd (callAI w (JStr ''groq'') systemPrompt (JStr userPrompt)) = [r]
           \<and> headers r = [(''Authorization'', ''Bearer undefined''),
                          (''Content-Type'', ''application/json'')]"
    if "env w ''GROQ_API_KEY'' = None"
    using that by (simp add: callAI_def chat_call_outcome chat_request_def env_str_def)
  have 2: "\<exists>r. snd (callAI w (JStr ''openai'') systemPrompt (JStr userPrompt)) = [r]
           \<and> headers r = [(''Authorization'', ''Bearer undefined''),
                          (''Content-Type'', ''application/json'')]"
    if "env w ''CHATGPT_API_KEY'' = None"
    using that by (simp add: callAI_def chat_call_outcome chat_request_def env_str_def)
  have 3: "\<exists>r. snd (callAI w (JStr ''deepseek'') systemPrompt (JStr userPrompt)) = [r]
           \<and> headers r = [(''Authorization'', ''Bearer undefined''),
                          (''Content-Type'', ''application/json'')]"
    if "env w ''DEEPSEEK_API_KEY'' = None"
    using that by (simp add: callAI_def chat_call_outcome chat_request_def env_str_def)
  have 4: "\<exists>r. snd (callAI w (JStr ''gemini'') systemPrompt (JStr userPrompt)) = [r]
           \<and> url r = ''https://generativelanguage.googleapis.com/v1beta/models/gemini-pro:generateContent?key=undefined''"
    if "env w ''GEMINI_API_KEY'' = None"
    using that by (simp add: callAI_def gemini_call_outcome gemini_request_def env_str_def)
  from i 0 1 2 3 4 show ?thesis by blast
qed

theorem startup_reads_no_credential_witness:
  "startup (world_of vendor_down) = Inr server_groq
   \<and> startup ((world_of vendor_down)\<lparr>env := env_groq_key\<rparr>) = Inr server_groq
   \<and> env (world_of vendor_down) ''GROQ_API_KEY'' = None
   \<and> map headers (snd (callAI (world_of vendor_down) (JStr ''groq'') ''be brief'' (JStr ''hello'')))
       = [[(''Authorization'', ''Bearer undefined''), (''Content-Type'', ''application/json'')]]"
proof -
  note t = startup_reads_no_credential
    [where w = "world_of vendor_down" and systemPrompt = "''be brief''"
       and userPrompt = "''hello''"]
  have a: "startup (world_of vendor_down) = Inr server_groq"
    by (simp add: startup_def env_PORT_def env_defaultProvider_def server_groq_def
          world_of_def env_empty_def listen_accepts_def)
  have k: "env_groq_key ''PORT'' = env (world_of vendor_down) ''PORT''
        \<and> env_groq_key ''AI_PROVIDER'' = env (world_of vendor_down) ''AI_PROVIDER''"
    by (simp add: env_groq_key_def world_of_def env_empty_def)
  from t k have b: "startup ((world_of vendor_down)\<lparr>env := env_groq_key\<rparr>)
                      = startup (world_of vendor_down)"
    by blast
  have c: "env (world_of vendor_down) ''GROQ_API_KEY'' = None"
    by (simp add: world_of_def env_empty_def)
  from t c obtain r where
    "snd (callAI (world_of vendor_down) (JStr ''groq'') ''be brief'' (JStr ''hello'')) = [r]"
    "headers r = [(''Authorization'', ''Bearer undefined''),
                  (''Content-Type'', ''application/json'')]"
    by blast
  with a b c show ?thesis by simp
qed

text \<open>With no \<^verbatim>\<open>GROQ_API_KEY\<close> and groq as the default provider the server starts; the
  first request is sent to the vendor with the bearer token \<^verbatim>\<open>undefined\<close> and fails
  there.\<close>

theorem startup_without_credential_serves:
  "env (world_of (vendor_replies 401 (JStr ''Invalid API Key''))) ''GROQ_API_KEY'' = None
   \<and> startup (world_of (vendor_replies 401 (JStr ''Invalid API Key''))) = Inr server_groq
   \<and> fst (text_enhancement (world_of (vendor_replies 401 (JStr ''Invalid API Key'')))
            server_groq (JObj [(''text'', JStr ''We build apps'')]))
       = Reply 500 (JObj [(''success'', JBool False),
                          (''error'', JStr ''Failed to enhance text'')])
   \<and> map headers (snd (text_enhancement (world_of (vendor_replies 401 (JStr ''Invalid API Key'')))
            server_groq (JObj [(''text'', JStr ''We build apps'')])))
       = [[(''Authorization'', ''Bearer undefined''), (''Content-Type'', ''application/json'')]]"
proof -
  let ?w = "world_of (vendor_replies 401 (JStr ''Invalid API Key''))"
  have a: "env ?w ''GROQ_API_KEY'' = None"
    by (simp add: world_of_def env_empty_def)
  have b: "startup ?w = Inr server_groq"
    by (simp add: startup_def env_PORT_def env_defaultProvider_def server_groq_def
          world_of_def env_empty_def listen_accepts_def)
  have c: "text_enhancement ?w server_groq (JObj [(''text'', JStr ''We build apps'')])
      = (Reply 500 (JObj [(''success'', JBool False),
                          (''error'', JStr ''Failed to enhance text'')]),
         [chat_request ?w ''https://api.groq.com/openai/v1/chat/completions''
            ''meta-llama/llama-4-scout-17b-16e-instruct'' ''GROQ_API_KEY''
            enhance_systemPrompt (JStr ''We build apps'')])"
    by (simp add: text_enhancement_reply not_nullish_JObj provider_of_default callAI_def
          chat_call_outcome world_of_def vendor_replies_def)
  have d: "headers (chat_request ?w ''https://api.groq.com/openai/v1/chat/completions''
            ''meta-llama/llama-4-scout-17b-16e-instruct'' ''GROQ_API_KEY''
            enhance_systemPrompt (JStr ''We build apps''))
       = [(''Authorization'', ''Bearer undefined''), (''Content-Type'', ''application/json'')]"
    by (simp add: chat_request_def env_str_def world_of_def env_empty_def)
  from a b c d show ?thesis by simp
qed

section \<open>Properties of the caller's client\<close>

text \<open>
  What the client does with an answer of the gateway: whenever the gateway answers the
  text-enhancement request, with whatever status code, and the answer's body is not JSON
  or holds nothing (or \<^verbatim>\<open>null\<close>) under \<^verbatim>\<open>enhancedText\<close>, as the gateway's failure
  reply does, \<open>enhanceText\<close> returns the input text unchanged and raises nothing.
  \<open>generateHtml\<close> returns the empty string in the same way.
\<close>

lemma enhanceText_falls_back_to_input:
  assumes "http_post L (enhance_request c text provider) = HttpResponse st body"
      and "nullish (response_json body ''enhancedText'')"
  shows "enhanceText L c text provider = Inr text"
  using assms by (simp add: enhanceText_def null_coalesce_def)

lemma enhanceText_after_failure_reply:
  "enhanceText
     (laravel_of (gateway_replies 500
        (Some (JObj [(''success'', JBool False), (''error'', JStr ''Failed to enhance text'')]))))
     client_local ''We build apps'' None
   = Inr ''We build apps''"
  by (simp add: enhanceText_def null_coalesce_def response_json_def nullish_def
        laravel_of_def gateway_replies_def)

lemma generateHtml_falls_back_to_empty:
  assumes "http_post L (html_request c proposalData provider) = HttpResponse st body"
      and "nullish (response_json body ''html'')"
  shows "generateHtml L c proposalData provider = Inr []"
  using assms by (simp add: generateHtml_def null_coalesce_def)

lemma generateHtml_after_failure_reply:
  "generateHtml
     (laravel_of (gateway_replies 500
        (Some (JObj [(''success'', JBool False), (''error'', JStr ''Failed to generate HTML'')]))))
     client_local (JObj [(''title'', JStr ''Web Proposal'')]) None
   = Inr []"
  by (simp add: generateHtml_def null_coalesce_def response_json_def nullish_def
        laravel_of_def gateway_replies_def)

text \<open>
  Claim C3. The claim asks \<open>enhanceText\<close> to return the input text, and to raise
  nothing, whenever the text-enhancement call fails. The code does so for every answer
  it receives, but not when the call fails for want of an answer: with the gateway out
  of reach \<^verbatim>\<open>Http::post\<close> raises, the \<^verbatim>\<open>??\<close> that holds the fallback is never
  reached, and \<open>enhanceText\<close> ends in the \<^verbatim>\<open>ConnectionException\<close> instead of
  \<^verbatim>\<open>'We build apps'\<close>.
\<close>

theorem enhanceText_raises_when_unreachable:
  "enhanceText (laravel_of gateway_down) client_local ''We build apps'' None
     = Inl ConnectionException"
  by (simp add: enhanceText_def laravel_of_def gateway_down_def)

text \<open>
  Claim C4. The claim asks \<open>generateHtml\<close> to return the empty string, and to raise
  nothing, whenever the generate-html call fails. With the gateway out of reach
  \<^verbatim>\<open>Http::post\<close> raises before the \<^verbatim>\<open>?? ''\<close> is reached, and \<open>generateHtml\<close> ends in
  the \<^verbatim>\<open>ConnectionException\<close> instead of the empty string.
\<close>

theorem generateHtml_raises_when_unreachable:
  "generateHtml (laravel_of gateway_down) client_local (JObj [(''title'', JStr ''Web Proposal'')]) None
     = Inl ConnectionException"
  by (simp add: generateHtml_def laravel_of_def gateway_down_def)

end
